theory Spec2Isabelle
  imports Complex_Main
begin

section \<open>JavaScript numbers\<close>

text \<open>
  The engine computes on JavaScript \<open>number\<close>s, the binary64 values of IEEE 754. A
  finite number is \<open>Num a\<close> for the real \<open>a\<close> it stands for; the other values are
  \<open>NaN\<close> and the two infinities. Every arithmetic operation rounds its exact real
  result to the nearest double (\<open>fl64\<close>): 53 significant bits between \<open>2^-1022\<close> and
  \<open>2^1024\<close>, multiples of \<open>2^-1074\<close> below, a tie to the even neighbour, and an
  infinity from \<open>2^1024 - 2^970\<close> on. A decimal literal of the source is the double
  nearest to it, \<open>fl64\<close> of the decimal. The one thing not modelled is the sign of
  zero. On the special values the operators follow IEEE 754: \<open>NaN\<close> is absorbing, every
  comparison with \<open>NaN\<close> is false, and \<open>NaN\<close> and \<open>0\<close> are falsy.
\<close>

datatype number = Num real | NaN | PosInf | NegInf

subsection \<open>Rounding to binary64\<close>

text \<open>
  \<open>ilog2 a\<close> is the exponent \<open>e\<close> with \<open>2^e \<le> a < 2^(e+1)\<close>, found by halving or
  doubling. \<open>fl64 x\<close> takes the exponent of \<open>x\<close>, not below \<open>-1022\<close>, rounds \<open>x\<close> to
  a multiple of \<open>2^(e-52)\<close>, and overflows when the result reaches \<open>2^1024\<close>.
\<close>

definition pow2 :: "int \<Rightarrow> real" where
  "pow2 k = (if 0 \<le> k then 2 ^ nat k else 1 / 2 ^ nat (- k))"

function expo_up :: "real \<Rightarrow> int" where
  "expo_up a = (if a < 2 then 0 else expo_up (a / 2) + 1)"
  by pat_completeness auto
termination
proof (relation "measure (\<lambda>a. nat \<lfloor>a\<rfloor>)")
  show "wf (measure (\<lambda>a. nat \<lfloor>a::real\<rfloor>))" by simp
next
  fix a :: real
  assume "\<not> a < 2"
  then have "a / 2 \<le> a - 1" by simp
  then have "\<lfloor>a / 2\<rfloor> \<le> \<lfloor>a - 1\<rfloor>" by (rule floor_mono)
  moreover have "2 \<le> \<lfloor>a\<rfloor>" using \<open>\<not> a < 2\<close> by (simp add: le_floor_iff)
  ultimately show "(a / 2, a) \<in> measure (\<lambda>a. nat \<lfloor>a\<rfloor>)" by simp
qed

function expo_down :: "real \<Rightarrow> int" where
  "expo_down a = (if 1 \<le> a \<or> a \<le> 0 then 0 else expo_down (2 * a) - 1)"
  by pat_completeness auto
termination
proof (relation "measure (\<lambda>a. nat \<lceil>1 / a\<rceil>)")
  show "wf (measure (\<lambda>a. nat \<lceil>1 / a :: real\<rceil>))" by simp
next
  fix a :: real
  assume "\<not> (1 \<le> a \<or> a \<le> 0)"
  then have a: "0 < a" "a < 1" by simp_all
  then have "1 < 1 / a" by simp
  then have c: "2 \<le> \<lceil>1 / a\<rceil>" by (simp add: le_ceiling_iff)
  have "1 / (2 * a) = (1 / a) / 2" by simp
  also have "\<dots> \<le> of_int \<lceil>1 / a\<rceil> / 2" by (simp add: divide_right_mono)
  also have "\<dots> \<le> of_int (\<lceil>1 / a\<rceil> - 1)" using c by simp
  finally have "\<lceil>1 / (2 * a)\<rceil> \<le> \<lceil>1 / a\<rceil> - 1" by (rule ceiling_le)
  with c a show "(2 * a, a) \<in> measure (\<lambda>a. nat \<lceil>1 / a\<rceil>)" by simp
qed

declare expo_up.simps [simp del] expo_down.simps [simp del]

definition ilog2 :: "real \<Rightarrow> int" where
  "ilog2 a = (if 1 \<le> a then expo_up a else expo_down a)"


definition nearest_even :: "real \<Rightarrow> int \<Rightarrow> int" where
  "nearest_even q f =
     (if q - of_int f < 1 / 2 then f
      else if 1 / 2 < q - of_int f then f + 1
      else if even f then f else f + 1)"

definition round_half_even :: "real \<Rightarrow> int" where
  "round_half_even q = nearest_even q \<lfloor>q\<rfloor>"

definition fl_pack :: "real \<Rightarrow> int \<Rightarrow> int \<Rightarrow> number" where
  "fl_pack x e r =
     (if 1023 < e \<or> (e = 1023 \<and> 2 ^ 53 \<le> r)
      then (if 0 < x then PosInf else NegInf)
      else Num (sgn x * (of_int r * pow2 (e - 52))))"

definition fl_at :: "real \<Rightarrow> int \<Rightarrow> number" where
  "fl_at x e = fl_pack x e (round_half_even (\<bar>x\<bar> / pow2 (e - 52)))"

definition fl64 :: "real \<Rightarrow> number" where
  "fl64 x = (if x = 0 then Num 0 else fl_at x (max (ilog2 \<bar>x\<bar>) (- 1022)))"


subsection \<open>The operators\<close>

instantiation number :: "{plus, uminus, minus, times, inverse, ord}"
begin

fun plus_number :: "number \<Rightarrow> number \<Rightarrow> number" where
  "plus_number NaN y = NaN"
| "plus_number x NaN = NaN"
| "plus_number (Num a) (Num b) = fl64 (a + b)"
| "plus_number (Num a) y = y"
| "plus_number x (Num b) = x"
| "plus_number PosInf PosInf = PosInf"
| "plus_number NegInf NegInf = NegInf"
| "plus_number PosInf NegInf = NaN"
| "plus_number NegInf PosInf = NaN"

fun uminus_number :: "number \<Rightarrow> number" where
  "uminus_number (Num a) = Num (- a)"
| "uminus_number NaN = NaN"
| "uminus_number PosInf = NegInf"
| "uminus_number NegInf = PosInf"

definition minus_number :: "number \<Rightarrow> number \<Rightarrow> number" where
  "minus_number x y = x + (- y)"

fun times_number :: "number \<Rightarrow> number \<Rightarrow> number" where
  "times_number NaN y = NaN"
| "times_number x NaN = NaN"
| "times_number (Num a) (Num b) = fl64 (a * b)"
| "times_number (Num a) PosInf = (if a = 0 then NaN else if 0 < a then PosInf else NegInf)"
| "times_number (Num a) NegInf = (if a = 0 then NaN else if 0 < a then NegInf else PosInf)"
| "times_number PosInf (Num b) = (if b = 0 then NaN else if 0 < b then PosInf else NegInf)"
| "times_number NegInf (Num b) = (if b = 0 then NaN else if 0 < b then NegInf else PosInf)"
| "times_number PosInf PosInf = PosInf"
| "times_number NegInf NegInf = PosInf"
| "times_number PosInf NegInf = NegInf"
| "times_number NegInf PosInf = NegInf"

fun divide_number :: "number \<Rightarrow> number \<Rightarrow> number" where
  "divide_number NaN y = NaN"
| "divide_number x NaN = NaN"
| "divide_number (Num a) (Num b) =
     (if b = 0 then (if a = 0 then NaN else if 0 < a then PosInf else NegInf)
      else fl64 (a / b))"
| "divide_number (Num a) y = Num 0"
| "divide_number PosInf (Num b) = (if 0 \<le> b then PosInf else NegInf)"
| "divide_number NegInf (Num b) = (if 0 \<le> b then NegInf else PosInf)"
| "divide_number x y = NaN"

definition inverse_number :: "number \<Rightarrow> number" where
  "inverse_number x = divide (Num 1) x"

fun less_eq_number :: "number \<Rightarrow> number \<Rightarrow> bool" where
  "less_eq_number NaN y = False"
| "less_eq_number x NaN = False"
| "less_eq_number (Num a) (Num b) = (a \<le> b)"
| "less_eq_number NegInf y = True"
| "less_eq_number x PosInf = True"
| "less_eq_number x y = False"

fun less_number :: "number \<Rightarrow> number \<Rightarrow> bool" where
  "less_number NaN y = False"
| "less_number x NaN = False"
| "less_number (Num a) (Num b) = (a < b)"
| "less_number PosInf y = False"
| "less_number x NegInf = False"
| "less_number x y = True"

instance ..

end

text \<open>
  \<open>Math.round\<close> gives the integer nearest to its argument, a tie upwards; \<open>Math.abs\<close>
  and \<open>Math.min\<close> are exact as well.
\<close>

fun Math_round :: "number \<Rightarrow> number" where
  "Math_round (Num a) = Num (of_int \<lfloor>a + 1 / 2\<rfloor>)"
| "Math_round x = x"

fun Math_abs :: "number \<Rightarrow> number" where
  "Math_abs (Num a) = Num \<bar>a\<bar>"
| "Math_abs NaN = NaN"
| "Math_abs x = PosInf"

fun Math_min :: "number \<Rightarrow> number \<Rightarrow> number" where
  "Math_min NaN y = NaN"
| "Math_min x NaN = NaN"
| "Math_min (Num a) (Num b) = Num (min a b)"
| "Math_min NegInf y = NegInf"
| "Math_min x NegInf = NegInf"
| "Math_min PosInf y = y"
| "Math_min x PosInf = x"

text \<open>
  A property typed \<open>number | undefined\<close> is a \<open>number option\<close>, \<open>None\<close> being
  \<open>undefined\<close>. \<open>truthy\<close> is the test of \<open>if (x)\<close>; \<open>ToNumber\<close> is the
  conversion that arithmetic applies to its operands (\<open>undefined\<close> becomes \<open>NaN\<close>).
\<close>

fun truthy :: "number option \<Rightarrow> bool" where
  "truthy None = False"
| "truthy (Some (Num a)) = (a \<noteq> 0)"
| "truthy (Some NaN) = False"
| "truthy (Some x) = True"

fun ToNumber :: "number option \<Rightarrow> number" where
  "ToNumber None = NaN"
| "ToNumber (Some x) = x"

section \<open>The data model\<close>

text \<open>
  Modelled from the spec: the type declarations of \<open>src/types/financial.ts\<close>
  (\<open>Founder\<close>, \<open>ESOPPool\<close>, \<open>FundingRound\<close>, \<open>Investor\<close>, \<open>CapTableState\<close>,
  \<open>RoundCalculationResult\<close>, \<open>ExitSimulation\<close>, \<open>Scenario\<close>) are not among the
  sources. Each record below has the properties that \<open>financial-engine.ts\<close> reads or
  writes on a value of that type, under the engine's names; where two types share a
  property name (\<open>id\<close>, \<open>name\<close>, \<open>shares\<close>, \<open>percentage\<close>, \<open>founders\<close>) a
  prefix tells them apart. A property that the engine tests for presence or reads with
  \<open>!\<close> is optional.
\<close>

record founder =
  founder_id :: string
  founder_name :: string
  initialEquity :: number

record esop_pool =
  pool_percentage :: number

datatype round_type = PRICED | SAFE

record priced_terms =
  preMoneyValuation :: "number option"
  postMoneyValuation :: "number option"

record safe_terms =
  valuationCap :: "number option"
  discount :: "number option"

record esop_adjustment =
  newPoolPercentage :: number
  isPreMoney :: bool

record funding_round =
  round_id :: string
  round_name :: string
  round_type :: round_type
  capitalRaised :: number
  pricedTerms :: "priced_terms option"
  safeTerms :: "safe_terms option"
  esopAdjustment :: "esop_adjustment option"

record scenario =
  scenario_founders :: "founder list"
  scenario_rounds :: "funding_round list"
  scenario_esopPools :: "esop_pool list"


text \<open>The entries of \<open>CapTableState.founders\<close> and \<open>CapTableState.investors\<close>.\<close>

record founder_holding =
  fh_id :: string
  fh_name :: string
  fh_shares :: number
  fh_percentage :: number

record investor_holding =
  ih_id :: string
  ih_name :: string
  ih_shares :: number
  ih_percentage :: number
  ih_investmentAmount :: number

text \<open>
  The object \<open>CapTableState.esop\<close> is the one object of the engine that is written
  through a reference which another state may hold as well (line 133, after the shallow
  copy of line 64), so these objects live in a store and a state holds a reference.
  The state objects themselves, and the arrays and entries of founders and investors,
  are values: every write to a property of a state (lines 127, 128, 135, 179) goes to the
  copy made at line 64 or to the object built at line 189, and the arrays are only ever
  replaced by the fresh result of \<open>map\<close>.
\<close>

record esop_obj =
  esop_shares :: number
  esop_percentage :: number

type_synonym ref = nat

record store =
  cells :: "ref \<Rightarrow> esop_obj"
  next_ref :: ref

definition alloc :: "store \<Rightarrow> esop_obj \<Rightarrow> ref \<times> store" where
  "alloc h v = (next_ref h, h\<lparr>cells := (cells h)(next_ref h := v), next_ref := Suc (next_ref h)\<rparr>)"

definition set_percentage :: "store \<Rightarrow> ref \<Rightarrow> number \<Rightarrow> store" where
  "set_percentage h r v = h\<lparr>cells := (cells h)(r := (cells h r)\<lparr>esop_percentage := v\<rparr>)\<rparr>"

record cap_table_state =
  totalShares :: number
  founders :: "founder_holding list"
  esop :: ref
  investors :: "investor_holding list"

record valuation =
  preMoney :: number
  postMoney :: "number option"

record round_calculation_result =
  preRoundState :: cap_table_state
  postRoundState :: cap_table_state
  newShares :: number
  sharePrice :: number
  valuation :: valuation

record founder_return =
  fr_founderId :: string
  fr_name :: string
  fr_finalEquity :: number
  fr_cashReturn :: number

record investor_return =
  ir_investorId :: string
  ir_name :: string
  ir_finalEquity :: number
  ir_cashReturn :: number
  ir_multiple :: number

record exit_simulation =
  exitValuation :: number
  founderReturns :: "founder_return list"
  esopValue :: number
  investorReturns :: "investor_return list"

text \<open>
  \<open>throw new Error(msg)\<close> is \<open>Error msg\<close>; reading a property of \<open>undefined\<close>
  (the terms of a round that carries none, lines 73 and 90) is \<open>TypeError\<close>.
\<close>

datatype error = Error string | TypeError

section \<open>The engine\<close>

definition INITIAL_SHARES :: number where
  "INITIAL_SHARES = Num 10000000"

text \<open>\<open>createInitialState\<close>, lines 32 to 58. \<open>reduce\<close> from \<open>0\<close> is \<open>foldl\<close>.\<close>

definition createInitialState ::
  "store \<Rightarrow> founder list \<Rightarrow> esop_pool list \<Rightarrow> error + (cap_table_state \<times> store)" where
  "createInitialState h fs esopPools =
     (let totalEquityPercent =
            foldl (\<lambda>sum f. sum + initialEquity f) (Num 0) fs +
            foldl (\<lambda>sum e. sum + pool_percentage e) (Num 0) esopPools
      in if Math_abs (totalEquityPercent - Num 100) > fl64 (1 / 100)
         then Inl (Error ''Initial equity must sum to 100%'')
         else
           let totalShares' = INITIAL_SHARES;
               esopShares =
                 foldl (\<lambda>sum pool. sum + Math_round ((pool_percentage pool / Num 100) * totalShares'))
                   (Num 0) esopPools;
               (r, h') = alloc h
                 \<lparr>esop_shares = esopShares,
                  esop_percentage = foldl (\<lambda>sum pool. sum + pool_percentage pool) (Num 0) esopPools\<rparr>
           in Inr (\<lparr>totalShares = totalShares',
                    founders = map (\<lambda>f.
                      \<lparr>fh_id = founder_id f, fh_name = founder_name f,
                       fh_shares = Math_round ((initialEquity f / Num 100) * totalShares'),
                       fh_percentage = initialEquity f\<rparr>) fs,
                    esop = r,
                    investors = []\<rparr>, h'))"

text \<open>
  \<open>adjustESOPPool\<close>, lines 158 to 196. The early return hands back the same state and
  leaves the store as it is. Otherwise the result is a new state whose \<open>esop\<close> is a new
  object; \<open>totalShares\<close> is copied by the spread of line 190.
\<close>

definition adjustESOPPool ::
  "store \<Rightarrow> cap_table_state \<Rightarrow> number \<Rightarrow> bool \<Rightarrow> number \<Rightarrow> cap_table_state \<times> store" where
  "adjustESOPPool h state targetPercent isPre newSharesFromRound =
     (let currentESOPPercent = (esop_shares (cells h (esop state)) / totalShares state) * Num 100
      in if targetPercent \<le> currentESOPPercent then (state, h)
         else
           let additionalESOPPercent = targetPercent - currentESOPPercent
           in if isPre then
                let additionalESOPShares = (additionalESOPPercent / Num 100) * totalShares state;
                    dilutionFactor = totalShares state / (totalShares state + additionalESOPShares);
                    state1 = state\<lparr>founders := map (\<lambda>f.
                      f\<lparr>fh_shares := Math_round (fh_shares f * dilutionFactor)\<rparr>) (founders state)\<rparr>;
                    (r, h') = alloc h
                      \<lparr>esop_shares = esop_shares (cells h (esop state1)) + additionalESOPShares,
                       esop_percentage = targetPercent\<rparr>
                in (state1\<lparr>esop := r\<rparr>, h')
              else
                let futureShares = totalShares state + newSharesFromRound;
                    additionalESOPShares =
                      (targetPercent / Num 100) * futureShares - esop_shares (cells h (esop state));
                    (r, h') = alloc h
                      \<lparr>esop_shares = esop_shares (cells h (esop state)) + additionalESOPShares,
                       esop_percentage = targetPercent\<rparr>
                in (state\<lparr>esop := r\<rparr>, h'))"

text \<open>
  Lines 65 to 105 of \<open>processRound\<close>: the values of the local variables \<open>sharePrice\<close>,
  \<open>preMoney\<close>, \<open>postMoney\<close> and \<open>newShares\<close> after the pricing, or the exception;
  \<open>outstanding\<close> is \<open>postRoundState.totalShares\<close>, which these lines only read.
  \<open>postMoney\<close> holds \<open>undefined\<close> when the else branch of line 78 reads a
  post-money valuation that is not there.
\<close>

definition roundPricing ::
  "number \<Rightarrow> funding_round \<Rightarrow> error + (number \<times> number \<times> number option \<times> number)" where
  "roundPricing outstanding rnd =
     (if round_type rnd = PRICED then
        (case pricedTerms rnd of
           None \<Rightarrow> Inl TypeError
         | Some terms \<Rightarrow>
             if truthy (preMoneyValuation terms) then
               let preMoney' = ToNumber (preMoneyValuation terms);
                   sharePrice' = preMoney' / outstanding;
                   newShares' = capitalRaised rnd / sharePrice';
                   postMoney' = preMoney' + capitalRaised rnd
               in Inr (sharePrice', preMoney', Some postMoney', newShares')
             else
               let postMoney' = postMoneyValuation terms;
                   preMoney' = ToNumber postMoney' - capitalRaised rnd;
                   sharePrice' = preMoney' / outstanding;
                   newShares' = capitalRaised rnd / sharePrice'
               in Inr (sharePrice', preMoney', postMoney', newShares'))
      else
        (case safeTerms rnd of
           None \<Rightarrow> Inl TypeError
         | Some terms \<Rightarrow>
             if truthy (valuationCap terms) then
               let sharePrice0 = ToNumber (valuationCap terms) / outstanding;
                   sharePrice' =
                     (if truthy (discount terms)
                      then Math_min sharePrice0
                             (sharePrice0 * (Num 1 - ToNumber (discount terms) / Num 100))
                      else sharePrice0);
                   newShares' = capitalRaised rnd / sharePrice';
                   preMoney' = sharePrice' * outstanding;
                   postMoney' = preMoney' + capitalRaised rnd
               in Inr (sharePrice', preMoney', Some postMoney', newShares')
             else Inl (Error ''SAFE without cap requires conversion round details'')))"

text \<open>
  \<open>processRound\<close>, lines 60 to 156. \<open>post0\<close> is the shallow copy of line 64: it has the
  properties of \<open>preRoundState\<close>, and so the same \<open>esop\<close> reference. Line 133 writes
  the percentage into the object that the reference of the adjusted state points to.
\<close>

definition processRound ::
  "store \<Rightarrow> cap_table_state \<Rightarrow> funding_round \<Rightarrow> error + (round_calculation_result \<times> store)" where
  "processRound h pre rnd =
     (let post0 = pre
      in case roundPricing (totalShares post0) rnd of
           Inl e \<Rightarrow> Inl e
         | Inr (sharePrice', preMoney', postMoney', newShares') \<Rightarrow>
             let (post1, h1) =
                   (case esopAdjustment rnd of
                      None \<Rightarrow> (post0, h)
                    | Some adj \<Rightarrow>
                        adjustESOPPool h post0 (newPoolPercentage adj) (isPreMoney adj) newShares');
                 newTotalShares = totalShares post1 + newShares';
                 investorEquityPercent = (newShares' / newTotalShares) * Num 100;
                 newInvestor =
                   \<lparr>ih_id = ''investor-'' @ round_id rnd,
                    ih_name = round_name rnd @ '' Investor'',
                    ih_shares = newShares',
                    ih_percentage = investorEquityPercent,
                    ih_investmentAmount = capitalRaised rnd\<rparr>;
                 post2 = post1\<lparr>totalShares := newTotalShares\<rparr>;
                 post3 = post2\<lparr>founders := map (\<lambda>f.
                   f\<lparr>fh_percentage := (fh_shares f / newTotalShares) * Num 100\<rparr>) (founders post2)\<rparr>;
                 h2 = set_percentage h1 (esop post3)
                        ((esop_shares (cells h1 (esop post3)) / newTotalShares) * Num 100);
                 post4 = post3\<lparr>investors :=
                   map (\<lambda>i. i\<lparr>ih_percentage := (ih_shares i / newTotalShares) * Num 100\<rparr>)
                     (investors post3) @ [newInvestor]\<rparr>
             in Inr (\<lparr>preRoundState = pre, postRoundState = post4, newShares = newShares',
                      sharePrice = sharePrice',
                      valuation = \<lparr>preMoney = preMoney', postMoney = postMoney'\<rparr>\<rparr>, h2))"

text \<open>
  \<open>calculateCapTable\<close>, lines 15 to 30. \<open>processRounds\<close> is the loop of line 23:
  \<open>states\<close> is the array pushed to, \<open>currentState\<close> the loop's variable. An exception
  of \<open>processRound\<close> leaves the loop and the function.
\<close>

fun processRounds ::
  "store \<Rightarrow> cap_table_state \<Rightarrow> funding_round list \<Rightarrow> cap_table_state list \<Rightarrow>
   error + (cap_table_state list \<times> store)" where
  "processRounds h currentState [] states = Inr (states, h)"
| "processRounds h currentState (rnd # rnds) states =
     (case processRound h currentState rnd of
        Inl e \<Rightarrow> Inl e
      | Inr (result, h') \<Rightarrow>
          processRounds h' (postRoundState result) rnds (states @ [postRoundState result]))"

definition calculateCapTable :: "store \<Rightarrow> scenario \<Rightarrow> error + (cap_table_state list \<times> store)" where
  "calculateCapTable h sc =
     (case createInitialState h (scenario_founders sc) (scenario_esopPools sc) of
        Inl e \<Rightarrow> Inl e
      | Inr (currentState, h0) \<Rightarrow> processRounds h0 currentState (scenario_rounds sc) [currentState])"

text \<open>\<open>simulateExit\<close>, lines 198 to 222.\<close>

definition simulateExit :: "store \<Rightarrow> cap_table_state \<Rightarrow> number \<Rightarrow> exit_simulation" where
  "simulateExit h finalState v =
     \<lparr>exitValuation = v,
      founderReturns = map (\<lambda>f.
        \<lparr>fr_founderId = fh_id f, fr_name = fh_name f, fr_finalEquity = fh_percentage f,
         fr_cashReturn = (fh_percentage f / Num 100) * v\<rparr>) (founders finalState),
      esopValue = (esop_percentage (cells h (esop finalState)) / Num 100) * v,
      investorReturns = map (\<lambda>i.
        \<lparr>ir_investorId = ih_id i, ir_name = ih_name i, ir_finalEquity = ih_percentage i,
         ir_cashReturn = (ih_percentage i / Num 100) * v,
         ir_multiple = ((ih_percentage i / Num 100) * v) / ih_investmentAmount i\<rparr>)
        (investors finalState)\<rparr>"


section \<open>The properties that a state is meant to have\<close>

text \<open>
  A sum of numbers is taken as the engine takes its own sums, from 0 and from left to
  right, every addition rounding; \<open>strict_eq\<close> is \<open>===\<close> on numbers. The holders of a
  state are its founders, its pool (read through the store) and its investors, in the
  order in which their shares came into being.
\<close>

definition sum_left :: "number list \<Rightarrow> number" where
  "sum_left xs = foldl (+) (Num 0) xs"

fun is_finite :: "number \<Rightarrow> bool" where
  "is_finite (Num a) = True"
| "is_finite x = False"

fun value_of :: "number \<Rightarrow> real" where
  "value_of (Num a) = a"
| "value_of x = 0"

fun strict_eq :: "number \<Rightarrow> number \<Rightarrow> bool" where
  "strict_eq NaN y = False"
| "strict_eq x NaN = False"
| "strict_eq x y = (x = y)"

definition holder_shares :: "store \<Rightarrow> cap_table_state \<Rightarrow> number list" where
  "holder_shares h s =
     map fh_shares (founders s) @ [esop_shares (cells h (esop s))] @ map ih_shares (investors s)"

definition holder_percentages :: "store \<Rightarrow> cap_table_state \<Rightarrow> number list" where
  "holder_percentages h s =
     map fh_percentage (founders s) @ [esop_percentage (cells h (esop s))] @
     map ih_percentage (investors s)"

definition shares_sum :: "store \<Rightarrow> cap_table_state \<Rightarrow> number" where
  "shares_sum h s = sum_left (holder_shares h s)"

definition percentage_sum :: "store \<Rightarrow> cap_table_state \<Rightarrow> number" where
  "percentage_sum h s = sum_left (holder_percentages h s)"

definition shares_consistent :: "store \<Rightarrow> cap_table_state \<Rightarrow> bool" where
  "shares_consistent h s = strict_eq (shares_sum h s) (totalShares s)"

definition percentages_consistent :: "store \<Rightarrow> cap_table_state \<Rightarrow> bool" where
  "percentages_consistent h s = (Math_abs (percentage_sum h s - Num 100) \<le> fl64 (1 / 100))"

text \<open>
  A state is \<open>sound\<close> when its total and the shares of all its holders are finite and no
  holder has a negative number of shares.
\<close>

definition nonneg_finite :: "number \<Rightarrow> bool" where
  "nonneg_finite x = (is_finite x \<and> 0 \<le> value_of x)"

definition sound :: "store \<Rightarrow> cap_table_state \<Rightarrow> bool" where
  "sound h s = (is_finite (totalShares s) \<and> list_all nonneg_finite (holder_shares h s))"

text \<open>
  The share counts that \<open>createInitialState\<close> hands out, added up: each founder's
  percentage of the 10,000,000 founding shares, rounded, and then the shares of the pool,
  which are the sum of the rounded counts of the declared pools.
\<close>

definition founding_shares :: "founder list \<Rightarrow> esop_pool list \<Rightarrow> number" where
  "founding_shares fs ps =
     sum_left
       (map (\<lambda>f. Math_round ((initialEquity f / Num 100) * INITIAL_SHARES)) fs @
        [sum_left (map (\<lambda>p. Math_round ((pool_percentage p / Num 100) * INITIAL_SHARES)) ps)])"

text \<open>
  The proceeds of an exit: the cash returns of the founders and of the investors and the
  value of the pool, added up from left to right. \<open>percentage_total\<close> and
  \<open>percentage_gross\<close> are the exact sums, over the reals, of the percentages of a state
  and of their absolute values. \<open>rounding_tolerance n a v\<close> is the rounding error that
  \<open>n\<close> proceeds of gross amount \<open>a\<close> at the valuation \<open>v\<close> can accumulate: each
  proceed is rounded twice and each of the \<open>n\<close> additions once, by a factor within
  \<open>1 + 2^-53\<close>, and each rounding of a result below \<open>2^-1022\<close> is off by at most
  \<open>2^-1075\<close>.
\<close>

definition exit_total :: "exit_simulation \<Rightarrow> number" where
  "exit_total sim =
     sum_left (map fr_cashReturn (founderReturns sim) @ map ir_cashReturn (investorReturns sim) @
               [esopValue sim])"

definition percentage_total :: "store \<Rightarrow> cap_table_state \<Rightarrow> real" where
  "percentage_total h s = sum_list (map value_of (holder_percentages h s))"

definition percentage_gross :: "store \<Rightarrow> cap_table_state \<Rightarrow> real" where
  "percentage_gross h s = sum_list (map (\<lambda>p. \<bar>value_of p\<bar>) (holder_percentages h s))"

definition rounding_tolerance :: "nat \<Rightarrow> real \<Rightarrow> real \<Rightarrow> real" where
  "rounding_tolerance n a v =
     ((1 + 1 / 2 ^ 53) ^ (n + 2) - 1) * a +
     real n * (2 + \<bar>v\<bar>) * (1 + 1 / 2 ^ 53) ^ (n + 1) / 2 ^ 1075"



section \<open>The scenarios of the engine's tests\<close>

text \<open>
  \<open>createTestScenario\<close> of the engine's test file names the founders \<open>founder-0\<close>,
  \<open>founder-1\<close> and the rounds \<open>round-0\<close>; the scenarios below are built the same way.
  \<open>empty_store\<close> is a store in which nothing has been allocated. A percentage or an
  amount of a scenario is the double nearest to the decimal written.
\<close>

definition empty_store :: store where
  "empty_store = \<lparr>cells = (\<lambda>r. \<lparr>esop_shares = Num 0, esop_percentage = Num 0\<rparr>), next_ref = 0\<rparr>"

definition founder0 :: "real \<Rightarrow> founder" where
  "founder0 p = \<lparr>founder_id = ''founder-0'', founder_name = ''Founder 1'', initialEquity = fl64 p\<rparr>"

definition founder1 :: "real \<Rightarrow> founder" where
  "founder1 p = \<lparr>founder_id = ''founder-1'', founder_name = ''Founder 2'', initialEquity = fl64 p\<rparr>"

definition test_round ::
  "round_type \<Rightarrow> real \<Rightarrow> priced_terms option \<Rightarrow> safe_terms option \<Rightarrow> esop_adjustment option \<Rightarrow>
   funding_round" where
  "test_round ty c pt st adj =
     \<lparr>round_id = ''round-0'', round_name = ''Round 1'', round_type = ty, capitalRaised = fl64 c,
      pricedTerms = pt, safeTerms = st, esopAdjustment = adj\<rparr>"

text \<open>The state and the store that \<open>createInitialState\<close> makes of one founder at 100%.\<close>

definition sole_founder_state :: cap_table_state where
  "sole_founder_state =
     \<lparr>totalShares = Num 10000000,
      founders = [\<lparr>fh_id = ''founder-0'', fh_name = ''Founder 1'', fh_shares = Num 10000000,
                  fh_percentage = Num 100\<rparr>],
      esop = 0, investors = []\<rparr>"

definition sole_founder_store :: store where
  "sole_founder_store =
     \<lparr>cells = (\<lambda>r. \<lparr>esop_shares = Num 0, esop_percentage = Num 0\<rparr>), next_ref = 1\<rparr>"

text \<open>Founders at 70% and 20% with a pool of 10% at founding, then one priced round.\<close>

definition pool_scenario :: scenario where
  "pool_scenario =
     \<lparr>scenario_founders = [founder0 70, founder1 20],
      scenario_rounds =
        [test_round PRICED 1000000
           (Some \<lparr>preMoneyValuation = Some (Num 4000000), postMoneyValuation = None\<rparr>) None None],
      scenario_esopPools = [\<lparr>pool_percentage = Num 10\<rparr>]\<rparr>"

text \<open>The test \<open>should handle priced round with pre-money ESOP top-up\<close>.\<close>

definition topup_scenario :: scenario where
  "topup_scenario =
     \<lparr>scenario_founders = [founder0 90, founder1 10],
      scenario_rounds =
        [test_round PRICED 2000000
           (Some \<lparr>preMoneyValuation = Some (Num 8000000), postMoneyValuation = None\<rparr>) None
           (Some \<lparr>newPoolPercentage = Num 15, isPreMoney = True\<rparr>)],
      scenario_esopPools = []\<rparr>"

text \<open>The test \<open>should handle single priced round correctly\<close>.\<close>

definition single_priced_scenario :: scenario where
  "single_priced_scenario =
     \<lparr>scenario_founders = [founder0 100],
      scenario_rounds =
        [test_round PRICED 1000000
           (Some \<lparr>preMoneyValuation = Some (Num 4000000), postMoneyValuation = None\<rparr>) None None],
      scenario_esopPools = []\<rparr>"

text \<open>The test \<open>should handle SAFE with discount\<close>.\<close>

definition safe_discount_scenario :: scenario where
  "safe_discount_scenario =
     \<lparr>scenario_founders = [founder0 100],
      scenario_rounds =
        [test_round SAFE 250000 None
           (Some \<lparr>valuationCap = Some (Num 10000000), discount = Some (Num 20)\<rparr>) None],
      scenario_esopPools = []\<rparr>"

text \<open>The test \<open>should calculate correct exit returns\<close>.\<close>

definition exit_scenario :: scenario where
  "exit_scenario =
     \<lparr>scenario_founders = [founder0 60, founder1 40],
      scenario_rounds =
        [test_round PRICED 2000000
           (Some \<lparr>preMoneyValuation = Some (Num 8000000), postMoneyValuation = None\<rparr>) None None],
      scenario_esopPools = []\<rparr>"

text \<open>One founder at 100.005%, which the tolerance of line 36 accepts; no rounds.\<close>

definition tolerance_scenario :: scenario where
  "tolerance_scenario =
     \<lparr>scenario_founders = [founder0 (100 + 5 / 1000)], scenario_rounds = [],
      scenario_esopPools = []\<rparr>"

text \<open>One founder at 100%; 1,000,000 raised at a post-money valuation of 1,000,000.\<close>

definition zero_price_scenario :: scenario where
  "zero_price_scenario =
     \<lparr>scenario_founders = [founder0 100],
      scenario_rounds =
        [test_round PRICED 1000000
           (Some \<lparr>preMoneyValuation = None, postMoneyValuation = Some (Num 1000000)\<rparr>) None None],
      scenario_esopPools = []\<rparr>"

section \<open>Rounding\<close>

text \<open>
  The rules by which a rounding is evaluated on a numeral, and the facts about \<open>fl64\<close>
  that the proofs use: the result is within half a unit in the last place of the real
  it rounds, it has the sign of that real, it is finite below \<open>2^1023\<close>, a double rounds
  to itself, and rounding is monotone against a double.
\<close>

lemmas fl_eval = fl64_def fl_at_def fl_pack_def round_half_even_def nearest_even_def pow2_def ilog2_def
  expo_up.simps expo_down.simps

lemma pow2_powi: "pow2 k = 2 powi k"
  by (simp add: pow2_def power_int_def inverse_eq_divide power_one_over)

lemma pow2_pos [simp]: "0 < pow2 k"
  by (simp add: pow2_powi)

lemma pow2_add: "pow2 (a + b) = pow2 a * pow2 b"
  by (simp add: pow2_powi power_int_add)

lemma pow2_nonzero [simp]: "pow2 k \<noteq> 0"
  using pow2_pos [of k] by (simp only: less_imp_neq [THEN not_sym] not_False_eq_True)

lemma pow2_split: "pow2 k = pow2 j * pow2 (k - j)"
  using pow2_add [of j "k - j"] by simp

lemma pow2_Suc: "pow2 (k + 1) = 2 * pow2 k"
  using pow2_add [of k 1] by (simp add: pow2_def [of 1])

lemma pow2_mono: "a \<le> b \<Longrightarrow> pow2 a \<le> pow2 b"
  by (simp add: pow2_powi power_int_increasing)

lemma pow2_strict_mono: "a < b \<Longrightarrow> pow2 a < pow2 b"
  by (simp add: pow2_powi power_int_strict_increasing)

lemma pow2_nat: "pow2 (int n) = 2 ^ n"
  by (simp add: pow2_def)

lemma expo_up_bounds: "1 \<le> a \<Longrightarrow> pow2 (expo_up a) \<le> a \<and> a < pow2 (expo_up a + 1)"
proof (induction a rule: expo_up.induct)
  case (1 a)
  show ?case
  proof (cases "a < 2")
    case True
    then have "expo_up a = 0" by (subst expo_up.simps) simp
    with True 1(2) show ?thesis by (simp add: pow2_def)
  next
    case False
    then have e: "expo_up a = expo_up (a / 2) + 1" by (subst expo_up.simps) simp
    from False have "1 \<le> a / 2" by simp
    from 1(1) [OF False this]
    have "pow2 (expo_up (a / 2)) \<le> a / 2" and "a / 2 < pow2 (expo_up (a / 2) + 1)" by simp_all
    moreover have "pow2 (expo_up (a / 2) + 1 + 1) = 2 * pow2 (expo_up (a / 2) + 1)"
      by (rule pow2_Suc)
    ultimately show ?thesis
      unfolding e by (simp add: pow2_Suc [of "expo_up (a / 2)"])
  qed
qed

lemma expo_down_bounds:
  "0 < a \<Longrightarrow> a < 1 \<Longrightarrow> pow2 (expo_down a) \<le> a \<and> a < pow2 (expo_down a + 1)"
proof (induction a rule: expo_down.induct)
  case (1 a)
  from 1(2,3) have n: "\<not> (1 \<le> a \<or> a \<le> 0)" by simp
  then have e: "expo_down a = expo_down (2 * a) - 1" by (subst expo_down.simps) simp
  show ?case
  proof (cases "2 * a < 1")
    case True
    from 1(1) [OF n _ True] 1(2) have "pow2 (expo_down (2 * a)) \<le> 2 * a \<and> 2 * a < pow2 (expo_down (2 * a) + 1)"
      by simp
    moreover have "pow2 (expo_down (2 * a)) = 2 * pow2 (expo_down (2 * a) - 1)"
      using pow2_Suc [of "expo_down (2 * a) - 1"] by simp
    ultimately show ?thesis by (simp add: e pow2_Suc)
  next
    case False
    then have "expo_down (2 * a) = 0" by (subst expo_down.simps) simp
    with False 1(3) show ?thesis by (simp add: e pow2_def)
  qed
qed

lemma ilog2_bounds: "0 < a \<Longrightarrow> pow2 (ilog2 a) \<le> a \<and> a < pow2 (ilog2 a + 1)"
  using expo_up_bounds [of a] expo_down_bounds [of a] by (simp add: ilog2_def)

lemma ilog2_unique:
  assumes "pow2 k \<le> a" and "a < pow2 (k + 1)"
  shows "ilog2 a = k"
proof -
  have a: "0 < a" using assms(1) pow2_pos [of k] by linarith
  note b = ilog2_bounds [OF a]
  have "\<not> ilog2 a < k"
  proof
    assume "ilog2 a < k"
    then have "pow2 (ilog2 a + 1) \<le> pow2 k" by (intro pow2_mono) simp
    with b assms(1) show False by linarith
  qed
  moreover have "\<not> k < ilog2 a"
  proof
    assume "k < ilog2 a"
    then have "pow2 (k + 1) \<le> pow2 (ilog2 a)" by (intro pow2_mono) simp
    with b assms(2) show False by linarith
  qed
  ultimately show ?thesis by simp
qed

lemma round_half_even_error: "\<bar>of_int (round_half_even q) - q\<bar> \<le> 1 / 2"
  unfolding round_half_even_def nearest_even_def
  by (auto simp add: abs_le_iff; linarith)

lemma round_half_even_int [simp]: "round_half_even (of_int n) = n"
  by (simp add: round_half_even_def nearest_even_def)

lemma round_half_even_mono_int: "of_int n \<le> q \<Longrightarrow> n \<le> round_half_even q"
proof -
  assume "of_int n \<le> q"
  then have "n \<le> \<lfloor>q\<rfloor>" by (simp add: le_floor_iff)
  then show ?thesis
    unfolding round_half_even_def nearest_even_def by auto
qed

lemma round_half_even_le_int: "q \<le> of_int n \<Longrightarrow> round_half_even q \<le> n"
proof -
  assume a: "q \<le> of_int n"
  show ?thesis
  proof (cases "q = of_int n")
    case True
    then show ?thesis by simp
  next
    case False
    with a have "q < of_int n" by simp
    then have "\<lfloor>q\<rfloor> < n" by (simp add: floor_less_iff)
    then show ?thesis
      unfolding round_half_even_def nearest_even_def by auto
  qed
qed


text \<open>The shape of a rounded value.\<close>

lemma fl64_shape:
  assumes "x \<noteq> 0"
  defines "e \<equiv> max (ilog2 \<bar>x\<bar>) (- 1022)"
  defines "q \<equiv> \<bar>x\<bar> / pow2 (e - 52)"
  defines "r \<equiv> round_half_even q"
  shows "fl64 x = fl_pack x e r"
    and "\<bar>of_int r - q\<bar> \<le> 1 / 2"
    and "0 \<le> r" and "r \<le> 2 ^ 53"
    and "ilog2 \<bar>x\<bar> = e \<Longrightarrow> 2 ^ 52 \<le> r"
    and "pow2 (e - 53) \<le> \<bar>x\<bar> / 2 ^ 53 + 1 / 2 ^ 1075"
proof -
  from assms(1) have a: "0 < \<bar>x\<bar>" by simp
  note b = ilog2_bounds [OF a]
  show "fl64 x = fl_pack x e r"
    using assms(1) by (simp add: fl64_def fl_at_def e_def q_def r_def)
  show "\<bar>of_int r - q\<bar> \<le> 1 / 2"
    unfolding r_def by (rule round_half_even_error)
  have "0 \<le> q" by (simp add: q_def less_imp_le)
  then have "of_int 0 \<le> q" by simp
  then show "0 \<le> r" unfolding r_def by (rule round_half_even_mono_int)
  have "ilog2 \<bar>x\<bar> + 1 \<le> e + 1" by (simp add: e_def)
  then have "pow2 (ilog2 \<bar>x\<bar> + 1) \<le> pow2 (e + 1)" by (rule pow2_mono)
  with b have "\<bar>x\<bar> < pow2 (e + 1)" by linarith
  moreover have "pow2 (e + 1) = pow2 53 * pow2 (e - 52)"
    using pow2_split [of "e + 1" 53] by simp
  ultimately have "q < pow2 53"
    by (simp add: q_def pos_divide_less_eq)
  then have "q \<le> of_int (2 ^ 53)" by (simp add: pow2_def)
  then show "r \<le> 2 ^ 53" unfolding r_def by (rule round_half_even_le_int)
  show "2 ^ 52 \<le> r" if "ilog2 \<bar>x\<bar> = e"
  proof -
    have "pow2 e = pow2 52 * pow2 (e - 52)"
      by (rule pow2_split)
    with b that have "pow2 52 \<le> q"
      by (simp add: q_def pos_le_divide_eq)
    then have "of_int (2 ^ 52) \<le> q" by (simp add: pow2_def)
    then show ?thesis unfolding r_def by (rule round_half_even_mono_int)
  qed
  show "pow2 (e - 53) \<le> \<bar>x\<bar> / 2 ^ 53 + 1 / 2 ^ 1075"
  proof (cases "ilog2 \<bar>x\<bar> = e")
    case True
    have "pow2 e = pow2 53 * pow2 (e - 53)"
      by (rule pow2_split)
    then have "pow2 (e - 53) = pow2 e / 2 ^ 53" by (simp add: pow2_def)
    also have "\<dots> \<le> \<bar>x\<bar> / 2 ^ 53" using b True by (simp add: divide_right_mono)
    finally show ?thesis by simp
  next
    case False
    then have "e = - 1022" by (simp add: e_def max_def split: if_splits)
    then have "pow2 (e - 53) = 1 / 2 ^ 1075" by (simp add: pow2_def)
    then show ?thesis by simp
  qed
qed

lemma fl_pack_Num:
  "fl_pack x e r = Num v \<Longrightarrow>
   v = sgn x * (of_int r * pow2 (e - 52)) \<and> \<not> (1023 < e \<or> (e = 1023 \<and> 2 ^ 53 \<le> r))"
  by (simp add: fl_pack_def split: if_splits)

text \<open>The error of one rounding: half a unit in the last place.\<close>

lemma fl64_error:
  assumes "fl64 x = Num v"
  shows "\<bar>v - x\<bar> \<le> \<bar>x\<bar> / 2 ^ 53 + 1 / 2 ^ 1075"
proof (cases "x = 0")
  case True
  with assms show ?thesis by (simp add: fl64_def)
next
  case False
  define e where "e = max (ilog2 \<bar>x\<bar>) (- 1022)"
  define q where "q = \<bar>x\<bar> / pow2 (e - 52)"
  define r where "r = round_half_even q"
  note s = fl64_shape [OF False, folded e_def q_def r_def]
  from assms s(1) have v: "v = sgn x * (of_int r * pow2 (e - 52))"
    using fl_pack_Num by metis
  have x: "x = sgn x * (q * pow2 (e - 52))"
    by (simp add: q_def sgn_mult_abs)
  have "v - x = sgn x * ((of_int r - q) * pow2 (e - 52))"
    by (subst x, subst v) (simp add: algebra_simps)
  then have "\<bar>v - x\<bar> = \<bar>of_int r - q\<bar> * pow2 (e - 52)"
    using False by (simp add: abs_mult abs_sgn_eq less_imp_le)
  also have "\<dots> \<le> 1 / 2 * pow2 (e - 52)"
    using s(2) by (intro mult_right_mono) (simp_all add: less_imp_le)
  also have "\<dots> = pow2 (e - 53)"
    using pow2_Suc [of "e - 53"] by simp
  also note s(6)
  finally show ?thesis .
qed

lemma fl64_nonneg:
  assumes "fl64 x = Num v" and "0 \<le> x"
  shows "0 \<le> v"
proof (cases "x = 0")
  case True
  with assms show ?thesis by (simp add: fl64_def)
next
  case False
  note s = fl64_shape [OF False]
  from assms(1) s(1) fl_pack_Num have "v = sgn x * (of_int (round_half_even (\<bar>x\<bar> / pow2 (max (ilog2 \<bar>x\<bar>) (- 1022) - 52))) * pow2 (max (ilog2 \<bar>x\<bar>) (- 1022) - 52))"
    by metis
  with s(3) assms(2) False show ?thesis
    by (simp add: sgn_if less_imp_le)
qed

lemma fl64_finite:
  assumes "\<bar>x\<bar> < 2 ^ 1023"
  shows "\<exists>v. fl64 x = Num v"
proof (cases "x = 0")
  case True
  then show ?thesis by (simp add: fl64_def)
next
  case False
  then have a: "0 < \<bar>x\<bar>" by simp
  note b = ilog2_bounds [OF a]
  have "ilog2 \<bar>x\<bar> < 1023"
  proof (rule ccontr)
    assume "\<not> ilog2 \<bar>x\<bar> < 1023"
    then have "pow2 1023 \<le> pow2 (ilog2 \<bar>x\<bar>)" by (intro pow2_mono) simp
    with b assms show False by (simp add: pow2_def)
  qed
  then have "max (ilog2 \<bar>x\<bar>) (- 1022) < 1023" by simp
  with fl64_shape(1) [OF False] show ?thesis
    by (simp add: fl_pack_def)
qed


text \<open>A rounded value is a double: rounding it again changes nothing.\<close>

lemma fl64_idem:
  assumes "fl64 x = Num v"
  shows "fl64 v = Num v"
proof (cases "x = 0")
  case True
  with assms show ?thesis by (simp add: fl64_def)
next
  case False
  define e where "e = max (ilog2 \<bar>x\<bar>) (- 1022)"
  define q where "q = \<bar>x\<bar> / pow2 (e - 52)"
  define r where "r = round_half_even q"
  note s = fl64_shape [OF False, folded e_def q_def r_def]
  from assms s(1) fl_pack_Num have v: "v = sgn x * (of_int r * pow2 (e - 52))"
    and ok: "\<not> (1023 < e \<or> (e = 1023 \<and> 2 ^ 53 \<le> r))"
    by metis+
  have e: "- 1022 \<le> e" by (simp add: e_def)
  show ?thesis
  proof (cases "r = 0")
    case True
    with v show ?thesis by (simp add: fl64_def)
  next
    case False
    with s(3) have rpos: "0 < r" by simp
    then have av: "\<bar>v\<bar> = of_int r * pow2 (e - 52)"
      using \<open>x \<noteq> 0\<close> by (simp add: v abs_mult abs_sgn_eq less_imp_le)
    have sv: "sgn v = sgn x"
      using rpos \<open>x \<noteq> 0\<close> by (simp add: v sgn_mult)
    have vn: "v \<noteq> 0"
      using rpos \<open>x \<noteq> 0\<close> by (simp add: v sgn_if)
    show ?thesis
    proof (cases "r = 2 ^ 53")
      case True
      have "pow2 (e + 1) = pow2 53 * pow2 (e - 52)"
        using pow2_split [of "e + 1" 53] by simp
      with True have av': "\<bar>v\<bar> = pow2 (e + 1)" by (simp add: av pow2_def)
      have "\<bar>v\<bar> < pow2 (e + 1 + 1)"
        unfolding av' by (rule pow2_strict_mono) simp
      with av' have il: "ilog2 \<bar>v\<bar> = e + 1" by (intro ilog2_unique) simp_all
      with e have m: "max (ilog2 \<bar>v\<bar>) (- 1022) = e + 1" by simp
      have "pow2 (e + 1) = pow2 52 * pow2 (e + 1 - 52)"
        by (rule pow2_split)
      then have q': "\<bar>v\<bar> / pow2 (e + 1 - 52) = of_int (2 ^ 52)"
        by (simp add: av' pow2_def)
      from ok True have "e + 1 \<le> 1023" by simp
      then have "fl64 v = Num (sgn v * (of_int (2 ^ 52) * pow2 (e + 1 - 52)))"
        using vn unfolding fl64_def fl_at_def m q' round_half_even_int
        by (simp add: fl_pack_def)
      also have "of_int (2 ^ 52) * pow2 (e + 1 - 52) = pow2 (e + 1)"
        using pow2_split [of "e + 1" 52] by (simp add: pow2_def)
      also have "sgn v * pow2 (e + 1) = v"
        using av' [symmetric] by (simp add: sgn_mult_abs)
      finally show ?thesis .
    next
      case False
      with s(4) have r53: "r < 2 ^ 53" by simp
      have m: "max (ilog2 \<bar>v\<bar>) (- 1022) = e"
      proof (cases "2 ^ 52 \<le> r")
        case True
        have "pow2 e = pow2 52 * pow2 (e - 52)" by (rule pow2_split)
        also have "\<dots> \<le> of_int r * pow2 (e - 52)"
          using True by (intro mult_right_mono) (simp_all add: pow2_def less_imp_le)
        finally have lo: "pow2 e \<le> \<bar>v\<bar>" by (simp add: av)
        have "of_int r * pow2 (e - 52) < pow2 53 * pow2 (e - 52)"
          using r53 by (intro mult_strict_right_mono) (simp_all add: pow2_def)
        also have "\<dots> = pow2 (e + 1)"
          using pow2_split [of "e + 1" 53] by simp
        finally have "\<bar>v\<bar> < pow2 (e + 1)" by (simp add: av)
        with lo have "ilog2 \<bar>v\<bar> = e" by (rule ilog2_unique)
        with e show ?thesis by simp
      next
        case False
        with s(5) have "ilog2 \<bar>x\<bar> \<noteq> e" by auto
        then have e': "e = - 1022" by (simp add: e_def max_def split: if_splits)
        have "of_int r * pow2 (e - 52) < pow2 52 * pow2 (e - 52)"
          using False by (intro mult_strict_right_mono) (simp_all add: pow2_def)
        also have "\<dots> = pow2 e" by (rule pow2_split [symmetric])
        finally have hi: "\<bar>v\<bar> < pow2 e" by (simp add: av)
        have "ilog2 \<bar>v\<bar> < e"
        proof (rule ccontr)
          assume "\<not> ilog2 \<bar>v\<bar> < e"
          then have "pow2 e \<le> pow2 (ilog2 \<bar>v\<bar>)" by (intro pow2_mono) simp
          moreover have "pow2 (ilog2 \<bar>v\<bar>) \<le> \<bar>v\<bar>"
            using ilog2_bounds [of "\<bar>v\<bar>"] vn by simp
          ultimately show False using hi by linarith
        qed
        with e' show ?thesis by simp
      qed
      have q': "\<bar>v\<bar> / pow2 (e - 52) = of_int r" by (simp add: av)
      have "fl64 v = fl_pack v e r"
        using vn unfolding fl64_def fl_at_def m q' round_half_even_int by simp
      also have "\<dots> = Num (sgn v * (of_int r * pow2 (e - 52)))"
        using ok by (simp add: fl_pack_def)
      also have "sgn v * (of_int r * pow2 (e - 52)) = v"
        unfolding sv by (simp add: v)
      finally show ?thesis .
    qed
  qed
qed

section \<open>Arithmetic of numbers\<close>

lemma fl64_zero [simp]: "fl64 0 = Num 0"
  by (simp add: fl64_def)

lemma fl64_one [simp]: "fl64 1 = Num 1"
  by (simp add: fl_eval)

lemma minus_Num [simp]: "Num a - Num b = fl64 (a - b)"
  by (simp add: minus_number_def)

lemma minus_NaN [simp]: "NaN - x = NaN" "x - NaN = NaN"
  by (cases x; simp add: minus_number_def)+

lemma NaN_absorbs [simp]: "x + NaN = NaN" "x * NaN = NaN" "x / NaN = NaN"
  by (cases x; simp)+

lemma Math_min_same [simp]: "Math_min x x = x"
  by (cases x) simp_all

lemma truthy_iff: "truthy (Some p) \<longleftrightarrow> p \<noteq> Num 0 \<and> p \<noteq> NaN"
  by (cases p) simp_all

lemma strict_eq_Num: "strict_eq x (Num t) \<longleftrightarrow> x = Num t"
  by (cases x) auto

lemma is_finite_iff: "is_finite x \<longleftrightarrow> (\<exists>a. x = Num a)"
  by (cases x) auto

lemma is_finite_value: "is_finite x \<Longrightarrow> x = Num (value_of x)"
  by (cases x) simp_all

lemma is_finite_plus: "is_finite (x + y) \<Longrightarrow> is_finite x \<and> is_finite y"
  by (cases x; cases y) simp_all

text \<open>A quotient is a double, so multiplying it by 1 gives it back.\<close>

lemma times_one_rounded: "fl64 a = Num v \<Longrightarrow> Num v * Num 1 = Num v"
  using fl64_idem [of a v] by simp

lemma quotient_rounded: "x / y = Num v \<Longrightarrow> fl64 v = Num v"
  by (cases x; cases y) (auto split: if_splits dest: fl64_idem)

lemma quotient_times_one: "(x / y) * Num 1 = x / (y::number)"
proof (cases "x / y")
  case (Num v)
  with quotient_rounded [OF Num] show ?thesis by simp
qed simp_all

lemmas engine_defs =
  calculateCapTable_def createInitialState_def processRound_def roundPricing_def
  adjustESOPPool_def alloc_def set_percentage_def INITIAL_SHARES_def Let_def

lemmas fixture_defs =
  empty_store_def founder0_def founder1_def test_round_def sole_founder_state_def
  sole_founder_store_def

subsection \<open>The store\<close>

text \<open>Writing a pool percentage leaves the shares of every pool object alone.\<close>

lemma set_percentage_shares [simp]:
  "esop_shares (cells (set_percentage h r v) q) = esop_shares (cells h q)"
  by (simp add: set_percentage_def)

section \<open>The founding state\<close>

lemma sole_founder_created:
  "createInitialState empty_store [founder0 100] [] = Inr (sole_founder_state, sole_founder_store)"
  by (simp add: engine_defs fixture_defs fl_eval fun_eq_iff)

section \<open>Pricing a round\<close>

text \<open>Once the pricing has not thrown, nothing else in \<open>processRound\<close> throws.\<close>

lemma processRound_returns:
  "roundPricing (totalShares pre) rnd = Inr (sp, pm, qm, n) \<Longrightarrow>
   \<exists>res h'. processRound h pre rnd = Inr (res, h') \<and> sharePrice res = sp \<and>
     preMoney (valuation res) = pm \<and> postMoney (valuation res) = qm \<and> newShares res = n"
  by (simp add: processRound_def Let_def split: prod.splits)

text \<open>
  C5 as stated fails where the pre-money valuation is 0: line 73 tests the valuation for
  truthiness, so 1,000,000 raised at a pre-money valuation of 0 (and no post-money
  valuation) is priced by the else branch. The share price and the new shares are
  \<open>NaN\<close> and \<open>postMoney\<close> is \<open>undefined\<close>, where the formulas give the price
  0 / 10,000,000 = 0 and 1,000,000 / 0 new shares.
\<close>

theorem priced_round_zero_pre_money:
  "case processRound sole_founder_store sole_founder_state
      (test_round PRICED 1000000
         (Some \<lparr>preMoneyValuation = Some (Num 0), postMoneyValuation = None\<rparr>) None None) of
     Inl e \<Rightarrow> False
   | Inr (res, h') \<Rightarrow>
       sharePrice res = NaN \<and> Num 0 / totalShares sole_founder_state = Num 0 \<and>
       newShares res = NaN \<and> Num 1000000 / (Num 0 / totalShares sole_founder_state) = PosInf \<and>
       postMoney (valuation res) = None"
  by (simp add: engine_defs fixture_defs fl_eval)

text \<open>
  C5, amended. For a priced round whose pre-money valuation \<open>p\<close> is neither 0 nor
  \<open>NaN\<close>, with capital \<open>capitalRaised rnd\<close> over a previous state \<open>pre\<close>,
  \<open>processRound\<close> returns with share price \<open>p / totalShares pre\<close>, new shares the
  capital over the share price, and post-money \<open>p\<close> plus the capital. For a priced
  round with no pre-money valuation and the post-money valuation \<open>q\<close>, it returns with
  pre-money \<open>q\<close> less the capital, share price pre-money over \<open>totalShares pre\<close>, new
  shares the capital over the share price, and post-money \<open>q\<close>. One founder at 100% and
  1,000,000 raised at 4,000,000 pre-money give 12,500,000 total shares, the founder 80%
  and the investor 20%.
\<close>

theorem priced_round_formulas:
  "(round_type rnd = PRICED \<and> pricedTerms rnd = Some pt \<and> preMoneyValuation pt = Some p \<and>
    p \<noteq> Num 0 \<and> p \<noteq> NaN \<longrightarrow>
      (\<exists>res h'. processRound h pre rnd = Inr (res, h') \<and>
         preMoney (valuation res) = p \<and>
         sharePrice res = p / totalShares pre \<and>
         newShares res = capitalRaised rnd / sharePrice res \<and>
         postMoney (valuation res) = Some (p + capitalRaised rnd))) \<and>
   (round_type rnd = PRICED \<and> pricedTerms rnd = Some pt \<and> preMoneyValuation pt = None \<and>
    postMoneyValuation pt = Some q \<longrightarrow>
      (\<exists>res h'. processRound h pre rnd = Inr (res, h') \<and>
         preMoney (valuation res) = q - capitalRaised rnd \<and>
         sharePrice res = (q - capitalRaised rnd) / totalShares pre \<and>
         newShares res = capitalRaised rnd / sharePrice res \<and>
         postMoney (valuation res) = Some q)) \<and>
   (case calculateCapTable empty_store single_priced_scenario of
      Inl e \<Rightarrow> False
    | Inr (states, h') \<Rightarrow>
        length states = 2 \<and> totalShares (states ! 1) = Num 12500000 \<and>
        map fh_percentage (founders (states ! 1)) = [Num 80] \<and>
        map ih_percentage (investors (states ! 1)) = [Num 20])"
proof (intro conjI impI)
  assume a: "round_type rnd = PRICED \<and> pricedTerms rnd = Some pt \<and>
    preMoneyValuation pt = Some p \<and> p \<noteq> Num 0 \<and> p \<noteq> NaN"
  then have "truthy (preMoneyValuation pt)" by (simp add: truthy_iff)
  with a have "roundPricing (totalShares pre) rnd =
      Inr (p / totalShares pre, p, Some (p + capitalRaised rnd),
           capitalRaised rnd / (p / totalShares pre))"
    by (simp add: roundPricing_def Let_def)
  from processRound_returns [OF this, of h]
  show "\<exists>res h'. processRound h pre rnd = Inr (res, h') \<and>
         preMoney (valuation res) = p \<and>
         sharePrice res = p / totalShares pre \<and>
         newShares res = capitalRaised rnd / sharePrice res \<and>
         postMoney (valuation res) = Some (p + capitalRaised rnd)"
    by auto
next
  assume a: "round_type rnd = PRICED \<and> pricedTerms rnd = Some pt \<and>
    preMoneyValuation pt = None \<and> postMoneyValuation pt = Some q"
  then have "roundPricing (totalShares pre) rnd =
      Inr ((q - capitalRaised rnd) / totalShares pre, q - capitalRaised rnd, Some q,
           capitalRaised rnd / ((q - capitalRaised rnd) / totalShares pre))"
    by (simp add: roundPricing_def Let_def)
  from processRound_returns [OF this, of h]
  show "\<exists>res h'. processRound h pre rnd = Inr (res, h') \<and>
         preMoney (valuation res) = q - capitalRaised rnd \<and>
         sharePrice res = (q - capitalRaised rnd) / totalShares pre \<and>
         newShares res = capitalRaised rnd / sharePrice res \<and>
         postMoney (valuation res) = Some q"
    by auto
next
  show "case calculateCapTable empty_store single_priced_scenario of
      Inl e \<Rightarrow> False
    | Inr (states, h') \<Rightarrow>
        length states = 2 \<and> totalShares (states ! 1) = Num 12500000 \<and>
        map fh_percentage (founders (states ! 1)) = [Num 80] \<and>
        map ih_percentage (investors (states ! 1)) = [Num 20]"
    by (simp add: engine_defs fixture_defs single_priced_scenario_def fl_eval)
qed

text \<open>
  The instances: 1,000,000 raised at 4,000,000 pre-money, and 1,000,000 raised at
  5,000,000 post-money, over 10,000,000 shares. Both are priced at 0.40 a share and
  issue 2,500,000 shares.
\<close>

theorem priced_round_formulas_witness:
  "(\<exists>res h'. processRound sole_founder_store sole_founder_state
       (test_round PRICED 1000000
          (Some \<lparr>preMoneyValuation = Some (Num 4000000), postMoneyValuation = None\<rparr>) None None)
       = Inr (res, h') \<and>
      preMoney (valuation res) = Num 4000000 \<and> sharePrice res = fl64 (2 / 5) \<and>
      newShares res = Num 2500000 \<and> postMoney (valuation res) = Some (Num 5000000)) \<and>
   (\<exists>res h'. processRound sole_founder_store sole_founder_state
       (test_round PRICED 1000000
          (Some \<lparr>preMoneyValuation = None, postMoneyValuation = Some (Num 5000000)\<rparr>) None None)
       = Inr (res, h') \<and>
      preMoney (valuation res) = Num 4000000 \<and> sharePrice res = fl64 (2 / 5) \<and>
      newShares res = Num 2500000 \<and> postMoney (valuation res) = Some (Num 5000000))"
proof -
  let ?p1 = "\<lparr>preMoneyValuation = Some (Num 4000000), postMoneyValuation = None\<rparr>"
  let ?r1 = "test_round PRICED 1000000 (Some ?p1) None None"
  let ?p2 = "\<lparr>preMoneyValuation = None, postMoneyValuation = Some (Num 5000000)\<rparr>"
  let ?r2 = "test_round PRICED 1000000 (Some ?p2) None None"
  have r1: "round_type ?r1 = PRICED \<and> pricedTerms ?r1 = Some ?p1 \<and>
      preMoneyValuation ?p1 = Some (Num 4000000) \<and> Num 4000000 \<noteq> Num 0 \<and> Num 4000000 \<noteq> NaN"
    by (simp add: test_round_def)
  have r2: "round_type ?r2 = PRICED \<and> pricedTerms ?r2 = Some ?p2 \<and>
      preMoneyValuation ?p2 = None \<and> postMoneyValuation ?p2 = Some (Num 5000000)"
    by (simp add: test_round_def)
  from r1 priced_round_formulas
    [where rnd = ?r1 and pt = ?p1 and p = "Num 4000000" and h = sole_founder_store
       and pre = sole_founder_state]
  obtain res h' where 1:
    "processRound sole_founder_store sole_founder_state ?r1 = Inr (res, h')"
    "preMoney (valuation res) = Num 4000000"
    "sharePrice res = Num 4000000 / totalShares sole_founder_state"
    "newShares res = capitalRaised ?r1 / sharePrice res"
    "postMoney (valuation res) = Some (Num 4000000 + capitalRaised ?r1)"
    by blast
  have a: "sharePrice res = fl64 (2 / 5)"
    using 1(3) by (simp add: sole_founder_state_def fl_eval)
  then have b: "newShares res = Num 2500000"
    using 1(4) by (simp add: test_round_def fl_eval)
  have c: "postMoney (valuation res) = Some (Num 5000000)"
    using 1(5) by (simp add: test_round_def fl_eval)
  from r2 priced_round_formulas
    [where rnd = ?r2 and pt = ?p2 and q = "Num 5000000" and h = sole_founder_store
       and pre = sole_founder_state]
  obtain res2 h2 where 2:
    "processRound sole_founder_store sole_founder_state ?r2 = Inr (res2, h2)"
    "preMoney (valuation res2) = Num 5000000 - capitalRaised ?r2"
    "sharePrice res2 = (Num 5000000 - capitalRaised ?r2) / totalShares sole_founder_state"
    "newShares res2 = capitalRaised ?r2 / sharePrice res2"
    "postMoney (valuation res2) = Some (Num 5000000)"
    by blast
  have d: "preMoney (valuation res2) = Num 4000000"
    using 2(2) by (simp add: test_round_def fl_eval)
  have e: "sharePrice res2 = fl64 (2 / 5)"
    using 2(3) by (simp add: sole_founder_state_def test_round_def fl_eval)
  then have f: "newShares res2 = Num 2500000"
    using 2(4) by (simp add: test_round_def fl_eval)
  from 1(1,2) a b c 2(1,5) d e f show ?thesis by blast
qed

text \<open>
  C6 as stated fails where the cap is 0 or the discount is \<open>NaN\<close>: lines 90 and 97
  test them for truthiness. A convertible with cap 0 and a 20% discount is not priced at
  0 / 10,000,000 but throws the no-cap error; one with a cap of 10,000,000 and the
  discount \<open>NaN\<close> is priced at the cap price 1, where the minimum of the two prices
  is \<open>NaN\<close>.
\<close>

theorem convertible_zero_cap_or_NaN_discount:
  "processRound sole_founder_store sole_founder_state
      (test_round SAFE 250000 None
         (Some \<lparr>valuationCap = Some (Num 0), discount = Some (Num 20)\<rparr>) None)
     = Inl (Error ''SAFE without cap requires conversion round details'') \<and>
   (case processRound sole_founder_store sole_founder_state
      (test_round SAFE 250000 None
         (Some \<lparr>valuationCap = Some (Num 10000000), discount = Some NaN\<rparr>) None) of
     Inl e \<Rightarrow> False
   | Inr (res, h') \<Rightarrow>
       sharePrice res = Num 1 \<and>
       Math_min (Num 10000000 / totalShares sole_founder_state)
         ((Num 10000000 / totalShares sole_founder_state) * (Num 1 - NaN / Num 100)) = NaN)"
  by (simp add: engine_defs fixture_defs fl_eval)

text \<open>
  C6, amended. For a convertible whose cap \<open>v\<close> is neither 0 nor \<open>NaN\<close>, over a
  previous state \<open>pre\<close>: with no discount \<open>processRound\<close> returns with share price
  \<open>v / totalShares pre\<close>; with a discount \<open>d\<close> that is not \<open>NaN\<close> it returns with
  the lesser of that price and that price times \<open>1 - d / 100\<close>; the new shares are the
  capital over the share price. One founder at 100% and a convertible of 250,000 at a
  cap of 10,000,000 with a 20% discount give the price 0.80 and 10,312,500 total shares.
\<close>

theorem convertible_formulas:
  "(round_type rnd = SAFE \<and> safeTerms rnd = Some st \<and> valuationCap st = Some v \<and>
    v \<noteq> Num 0 \<and> v \<noteq> NaN \<longrightarrow>
      (discount st = None \<longrightarrow>
         (\<exists>res h'. processRound h pre rnd = Inr (res, h') \<and>
            sharePrice res = v / totalShares pre \<and>
            newShares res = capitalRaised rnd / sharePrice res)) \<and>
      (\<forall>d. discount st = Some d \<and> d \<noteq> NaN \<longrightarrow>
         (\<exists>res h'. processRound h pre rnd = Inr (res, h') \<and>
            sharePrice res =
              Math_min (v / totalShares pre) ((v / totalShares pre) * (Num 1 - d / Num 100)) \<and>
            newShares res = capitalRaised rnd / sharePrice res))) \<and>
   (case processRound sole_founder_store sole_founder_state
           (hd (scenario_rounds safe_discount_scenario)) of
      Inl e \<Rightarrow> False
    | Inr (res, h') \<Rightarrow>
        sharePrice res = fl64 (4 / 5) \<and> totalShares (postRoundState res) = Num 10312500 \<and>
        calculateCapTable empty_store safe_discount_scenario =
          Inr ([sole_founder_state, postRoundState res], h'))"
proof (intro conjI impI allI)
  assume a: "round_type rnd = SAFE \<and> safeTerms rnd = Some st \<and> valuationCap st = Some v \<and>
    v \<noteq> Num 0 \<and> v \<noteq> NaN" and d: "discount st = None"
  then have "truthy (valuationCap st)" by (simp add: truthy_iff)
  with a d have "roundPricing (totalShares pre) rnd =
      Inr (v / totalShares pre, (v / totalShares pre) * totalShares pre,
           Some ((v / totalShares pre) * totalShares pre + capitalRaised rnd),
           capitalRaised rnd / (v / totalShares pre))"
    by (simp add: roundPricing_def Let_def)
  from processRound_returns [OF this, of h]
  show "\<exists>res h'. processRound h pre rnd = Inr (res, h') \<and>
            sharePrice res = v / totalShares pre \<and>
            newShares res = capitalRaised rnd / sharePrice res"
    by auto
next
  fix d
  let ?sp = "Math_min (v / totalShares pre) ((v / totalShares pre) * (Num 1 - d / Num 100))"
  assume a: "round_type rnd = SAFE \<and> safeTerms rnd = Some st \<and> valuationCap st = Some v \<and>
    v \<noteq> Num 0 \<and> v \<noteq> NaN" and d: "discount st = Some d \<and> d \<noteq> NaN"
  then have t: "truthy (valuationCap st)" by (simp add: truthy_iff)
  have "\<not> truthy (Some d) \<Longrightarrow> ?sp = v / totalShares pre"
    using d by (cases d) (auto simp add: quotient_times_one)
  with a d t have "roundPricing (totalShares pre) rnd =
      Inr (?sp, ?sp * totalShares pre, Some (?sp * totalShares pre + capitalRaised rnd),
           capitalRaised rnd / ?sp)"
    by (cases "truthy (Some d)") (simp_all add: roundPricing_def Let_def)
  from processRound_returns [OF this, of h]
  show "\<exists>res h'. processRound h pre rnd = Inr (res, h') \<and>
            sharePrice res = ?sp \<and> newShares res = capitalRaised rnd / sharePrice res"
    by auto
next
  show "case processRound sole_founder_store sole_founder_state
           (hd (scenario_rounds safe_discount_scenario)) of
      Inl e \<Rightarrow> False
    | Inr (res, h') \<Rightarrow>
        sharePrice res = fl64 (4 / 5) \<and> totalShares (postRoundState res) = Num 10312500 \<and>
        calculateCapTable empty_store safe_discount_scenario =
          Inr ([sole_founder_state, postRoundState res], h')"
    by (simp add: engine_defs fixture_defs safe_discount_scenario_def fun_eq_iff fl_eval)
qed

text \<open>
  The instances: 500,000 at a cap of 5,000,000 without discount is priced at 0.50 and
  issues 1,000,000 shares; 250,000 at a cap of 10,000,000 with a 20% discount is priced
  at 0.80 and issues 312,500 shares.
\<close>

theorem convertible_formulas_witness:
  "(\<exists>res h'. processRound sole_founder_store sole_founder_state
       (test_round SAFE 500000 None
          (Some \<lparr>valuationCap = Some (Num 5000000), discount = None\<rparr>) None)
       = Inr (res, h') \<and>
      sharePrice res = Num (1 / 2) \<and> newShares res = Num 1000000) \<and>
   (\<exists>res h'. processRound sole_founder_store sole_founder_state
       (test_round SAFE 250000 None
          (Some \<lparr>valuationCap = Some (Num 10000000), discount = Some (Num 20)\<rparr>) None)
       = Inr (res, h') \<and>
      sharePrice res = fl64 (4 / 5) \<and> newShares res = Num 312500)"
proof -
  let ?s1 = "\<lparr>valuationCap = Some (Num 5000000), discount = None\<rparr>"
  let ?r1 = "test_round SAFE 500000 None (Some ?s1) None"
  let ?s2 = "\<lparr>valuationCap = Some (Num 10000000), discount = Some (Num 20)\<rparr>"
  let ?r2 = "test_round SAFE 250000 None (Some ?s2) None"
  have r1: "round_type ?r1 = SAFE \<and> safeTerms ?r1 = Some ?s1 \<and>
      valuationCap ?s1 = Some (Num 5000000) \<and> Num 5000000 \<noteq> Num 0 \<and> Num 5000000 \<noteq> NaN"
    and d1: "discount ?s1 = None"
    by (simp_all add: test_round_def)
  have r2: "round_type ?r2 = SAFE \<and> safeTerms ?r2 = Some ?s2 \<and>
      valuationCap ?s2 = Some (Num 10000000) \<and> Num 10000000 \<noteq> Num 0 \<and> Num 10000000 \<noteq> NaN"
    and d2: "discount ?s2 = Some (Num 20) \<and> Num 20 \<noteq> NaN"
    by (simp_all add: test_round_def)
  from r1 d1 convertible_formulas
    [where rnd = ?r1 and st = ?s1 and v = "Num 5000000" and h = sole_founder_store
       and pre = sole_founder_state]
  obtain res h' where 1:
    "processRound sole_founder_store sole_founder_state ?r1 = Inr (res, h')"
    "sharePrice res = Num 5000000 / totalShares sole_founder_state"
    "newShares res = capitalRaised ?r1 / sharePrice res"
    by blast
  have a: "sharePrice res = Num (1 / 2)"
    using 1(2) by (simp add: sole_founder_state_def fl_eval)
  then have b: "newShares res = Num 1000000"
    using 1(3) by (simp add: test_round_def fl_eval)
  from r2 d2 convertible_formulas
    [where rnd = ?r2 and st = ?s2 and v = "Num 10000000" and h = sole_founder_store
       and pre = sole_founder_state]
  obtain res2 h2 where 2:
    "processRound sole_founder_store sole_founder_state ?r2 = Inr (res2, h2)"
    "sharePrice res2 = Math_min (Num 10000000 / totalShares sole_founder_state)
       ((Num 10000000 / totalShares sole_founder_state) * (Num 1 - Num 20 / Num 100))"
    "newShares res2 = capitalRaised ?r2 / sharePrice res2"
    by blast
  have c: "sharePrice res2 = fl64 (4 / 5)"
    using 2(2) by (simp add: sole_founder_state_def fl_eval)
  then have d: "newShares res2 = Num 312500"
    using 2(3) by (simp add: test_round_def fl_eval)
  from 1(1) a b 2(1) c d show ?thesis by blast
qed

section \<open>Rounds whose terms are missing or zero\<close>

text \<open>
  C8 as stated fails for a convertible that carries no terms at all: line 86 asserts the
  terms present, line 90 reads the cap of \<open>undefined\<close>, and what is thrown is a
  \<open>TypeError\<close>, not the error of line 94.
\<close>

theorem safe_without_terms_throws_TypeError:
  "processRound sole_founder_store sole_founder_state (test_round SAFE 500000 None None None)
     = Inl TypeError \<and>
   Inl TypeError \<noteq>
     (Inl (Error ''SAFE without cap requires conversion round details'') ::
        error + (round_calculation_result \<times> store))"
  by (simp add: processRound_def roundPricing_def test_round_def)

text \<open>
  C8, amended. A convertible instrument whose terms carry no valuation cap makes
  \<open>processRound\<close> throw \<open>SAFE without cap requires conversion round details\<close>: the
  result is the error and no state, whatever the discount of the terms is. A convertible
  that carries no terms makes it throw a \<open>TypeError\<close>, and no state either.
\<close>

theorem safe_without_cap_fails:
  "(round_type rnd = SAFE \<and> safeTerms rnd = Some terms \<and> valuationCap terms = None \<longrightarrow>
      processRound h pre rnd = Inl (Error ''SAFE without cap requires conversion round details'')) \<and>
   (round_type rnd = SAFE \<and> safeTerms rnd = None \<longrightarrow> processRound h pre rnd = Inl TypeError)"
  by (simp add: processRound_def roundPricing_def)

text \<open>
  The instances: 500,000 raised by a convertible with a 20% discount and no cap, and by
  one with no discount and no cap.
\<close>

theorem safe_without_cap_fails_witness:
  "processRound sole_founder_store sole_founder_state
     (test_round SAFE 500000 None (Some \<lparr>valuationCap = None, discount = Some (Num 20)\<rparr>) None)
   = Inl (Error ''SAFE without cap requires conversion round details'') \<and>
   processRound sole_founder_store sole_founder_state
     (test_round SAFE 500000 None (Some \<lparr>valuationCap = None, discount = None\<rparr>) None)
   = Inl (Error ''SAFE without cap requires conversion round details'')"
  using safe_without_cap_fails
      [where rnd = "test_round SAFE 500000 None
           (Some \<lparr>valuationCap = None, discount = Some (Num 20)\<rparr>) None"
         and terms = "\<lparr>valuationCap = None, discount = Some (Num 20)\<rparr>"
         and h = sole_founder_store and pre = sole_founder_state]
    safe_without_cap_fails
      [where rnd = "test_round SAFE 500000 None
           (Some \<lparr>valuationCap = None, discount = None\<rparr>) None"
         and terms = "\<lparr>valuationCap = None, discount = None\<rparr>"
         and h = sole_founder_store and pre = sole_founder_state]
  by (simp add: test_round_def)

text \<open>
  C10. Presence of a valuation is its truthiness. A priced round whose pre-money
  valuation is 0 gives the result of the same round with the pre-money valuation
  removed, so it is priced from the post-money valuation: \<open>preMoney\<close> is post-money less
  the capital raised and the share price is that over the previous total. A convertible
  whose cap is 0 gives the result of the same round with the cap removed, the no-cap
  error.
\<close>

theorem zero_valuation_is_absent:
  "(round_type rnd = PRICED \<and> pricedTerms rnd = Some pt \<and> preMoneyValuation pt = Some (Num 0) \<longrightarrow>
      processRound h pre rnd =
        processRound h pre (rnd\<lparr>pricedTerms := Some (pt\<lparr>preMoneyValuation := None\<rparr>)\<rparr>) \<and>
      (\<exists>res h'. processRound h pre rnd = Inr (res, h') \<and>
         preMoney (valuation res) = ToNumber (postMoneyValuation pt) - capitalRaised rnd \<and>
         sharePrice res = (ToNumber (postMoneyValuation pt) - capitalRaised rnd) / totalShares pre \<and>
         newShares res = capitalRaised rnd / sharePrice res \<and>
         postMoney (valuation res) = postMoneyValuation pt)) \<and>
   (round_type rnd = SAFE \<and> safeTerms rnd = Some st \<and> valuationCap st = Some (Num 0) \<longrightarrow>
      processRound h pre rnd =
        processRound h pre (rnd\<lparr>safeTerms := Some (st\<lparr>valuationCap := None\<rparr>)\<rparr>) \<and>
      processRound h pre rnd = Inl (Error ''SAFE without cap requires conversion round details''))"
  by (auto simp add: processRound_def roundPricing_def Let_def split: prod.splits option.splits)

text \<open>
  The instances: 1,000,000 raised at pre-money 0 and post-money 5,000,000 is priced at
  4,000,000 / 10,000,000 a share; a convertible with cap 0 fails.
\<close>

theorem zero_valuation_is_absent_witness:
  "processRound sole_founder_store sole_founder_state
     (test_round PRICED 1000000
        (Some \<lparr>preMoneyValuation = Some (Num 0), postMoneyValuation = Some (Num 5000000)\<rparr>) None None)
   = processRound sole_founder_store sole_founder_state
     (test_round PRICED 1000000
        (Some \<lparr>preMoneyValuation = None, postMoneyValuation = Some (Num 5000000)\<rparr>) None None) \<and>
   (\<exists>res h'. processRound sole_founder_store sole_founder_state
     (test_round PRICED 1000000
        (Some \<lparr>preMoneyValuation = Some (Num 0), postMoneyValuation = Some (Num 5000000)\<rparr>) None None)
      = Inr (res, h') \<and>
     sharePrice res = fl64 (2 / 5) \<and> newShares res = Num 2500000) \<and>
   processRound sole_founder_store sole_founder_state
     (test_round SAFE 500000 None (Some \<lparr>valuationCap = Some (Num 0), discount = None\<rparr>) None)
   = Inl (Error ''SAFE without cap requires conversion round details'')"
proof -
  let ?pt = "\<lparr>preMoneyValuation = Some (Num 0), postMoneyValuation = Some (Num 5000000)\<rparr>"
  let ?r = "test_round PRICED 1000000 (Some ?pt) None None"
  let ?st = "\<lparr>valuationCap = Some (Num 0), discount = None\<rparr>"
  let ?q = "test_round SAFE 500000 None (Some ?st) None"
  have r: "round_type ?r = PRICED \<and> pricedTerms ?r = Some ?pt \<and> preMoneyValuation ?pt = Some (Num 0)"
    by (simp add: test_round_def)
  have q: "round_type ?q = SAFE \<and> safeTerms ?q = Some ?st \<and> valuationCap ?st = Some (Num 0)"
    by (simp add: test_round_def)
  have upd: "?r\<lparr>pricedTerms := Some (?pt\<lparr>preMoneyValuation := None\<rparr>)\<rparr> =
      test_round PRICED 1000000
        (Some \<lparr>preMoneyValuation = None, postMoneyValuation = Some (Num 5000000)\<rparr>) None None"
    by (simp add: test_round_def)
  from r zero_valuation_is_absent
    [where rnd = ?r and pt = ?pt and h = sole_founder_store and pre = sole_founder_state]
  have same: "processRound sole_founder_store sole_founder_state ?r =
      processRound sole_founder_store sole_founder_state
        (?r\<lparr>pricedTerms := Some (?pt\<lparr>preMoneyValuation := None\<rparr>)\<rparr>)"
    and ex: "\<exists>res h'. processRound sole_founder_store sole_founder_state ?r = Inr (res, h') \<and>
         preMoney (valuation res) = ToNumber (postMoneyValuation ?pt) - capitalRaised ?r \<and>
         sharePrice res =
           (ToNumber (postMoneyValuation ?pt) - capitalRaised ?r) / totalShares sole_founder_state \<and>
         newShares res = capitalRaised ?r / sharePrice res \<and>
         postMoney (valuation res) = postMoneyValuation ?pt"
    by blast+
  from ex obtain res h' where
    res: "processRound sole_founder_store sole_founder_state ?r = Inr (res, h')"
      "sharePrice res =
         (ToNumber (postMoneyValuation ?pt) - capitalRaised ?r) / totalShares sole_founder_state"
      "newShares res = capitalRaised ?r / sharePrice res"
    by blast
  have "sharePrice res = fl64 (2 / 5)"
    using res(2) by (simp add: test_round_def sole_founder_state_def fl_eval)
  moreover from this have "newShares res = Num 2500000"
    using res(3) by (simp add: test_round_def fl_eval)
  ultimately have priced:
    "\<exists>res h'. processRound sole_founder_store sole_founder_state ?r = Inr (res, h') \<and>
       sharePrice res = fl64 (2 / 5) \<and> newShares res = Num 2500000"
    using res(1) by blast
  from q zero_valuation_is_absent
    [where rnd = ?q and st = ?st and h = sole_founder_store and pre = sole_founder_state]
  have "processRound sole_founder_store sole_founder_state ?q =
      Inl (Error ''SAFE without cap requires conversion round details'')"
    by blast
  with same upd priced show ?thesis by simp
qed

text \<open>
  C2. A priced round that carries neither valuation is meant to fail with an error. It
  does not: line 73 finds no pre-money valuation, the else branch reads the missing
  post-money valuation as \<open>undefined\<close>, the subtraction of line 80 gives \<open>NaN\<close>, and
  \<open>processRound\<close> returns a next state. For one founder at 100% and 1,000,000 raised,
  the share price, the new shares and the new total are \<open>NaN\<close>, as are the founder's
  percentage and the shares of the investor that was added.
\<close>

theorem priced_without_valuation_returns_NaN:
  "case processRound sole_founder_store sole_founder_state
      (test_round PRICED 1000000
         (Some \<lparr>preMoneyValuation = None, postMoneyValuation = None\<rparr>) None None) of
     Inl e \<Rightarrow> False
   | Inr (res, h') \<Rightarrow>
       sharePrice res = NaN \<and> newShares res = NaN \<and> postMoney (valuation res) = None \<and>
       totalShares (postRoundState res) = NaN \<and>
       map fh_percentage (founders (postRoundState res)) = [NaN] \<and>
       map ih_shares (investors (postRoundState res)) = [NaN]"
  by (simp add: engine_defs fixture_defs fl_eval)

section \<open>The pool object shared by two states\<close>

text \<open>
  What every round keeps of the previous state: the state object itself, which is a
  value of the result, and the shares of its pool object, provided the object was
  allocated before the call.
\<close>

lemma adjustESOPPool_frame:
  assumes "adjustESOPPool h state t b n = (state', h')" and "r < next_ref h"
  shows "cells h' r = cells h r"
  using assms
  by (auto simp add: adjustESOPPool_def alloc_def Let_def split: if_splits)

lemma previous_state_frame:
  assumes run: "processRound h pre rnd = Inr (res, h')" and alloc: "esop pre < next_ref h"
  shows "preRoundState res = pre"
    and "esop_shares (cells h' (esop pre)) = esop_shares (cells h (esop pre))"
proof -
  from run obtain sp pm qm n where pr: "roundPricing (totalShares pre) rnd = Inr (sp, pm, qm, n)"
    by (auto simp add: processRound_def Let_def split: sum.splits)
  obtain post1 h1 where adj: "(case esopAdjustment rnd of None \<Rightarrow> (pre, h)
      | Some a \<Rightarrow> adjustESOPPool h pre (newPoolPercentage a) (isPreMoney a) n) = (post1, h1)"
    by (cases "case esopAdjustment rnd of None \<Rightarrow> (pre, h)
      | Some a \<Rightarrow> adjustESOPPool h pre (newPoolPercentage a) (isPreMoney a) n") auto
  have c: "cells h1 (esop pre) = cells h (esop pre)"
    using adj alloc adjustESOPPool_frame [of h pre _ _ n post1 h1 "esop pre"]
    by (cases "esopAdjustment rnd") auto
  from run pr adj have h': "h' = set_percentage h1 (esop post1)
      ((esop_shares (cells h1 (esop post1)) / (totalShares post1 + n)) * Num 100)"
    and p: "preRoundState res = pre"
    by (auto simp add: processRound_def Let_def)
  show "preRoundState res = pre" by (rule p)
  show "esop_shares (cells h' (esop pre)) = esop_shares (cells h (esop pre))"
    by (simp add: h' c)
qed

text \<open>
  What a round without a top-up does not keep: the next state has the pool object of
  the previous one, and the percentage in it becomes that of the next state.
\<close>

lemma previous_pool_percentage_written:
  assumes "esopAdjustment rnd = None" and "processRound h pre rnd = Inr (res, h')"
  shows "esop (postRoundState res) = esop pre"
    and "esop_percentage (cells h' (esop pre)) =
      (esop_shares (cells h (esop pre)) / totalShares (postRoundState res)) * Num 100"
  using assms
  by (auto simp add: processRound_def set_percentage_def Let_def split: sum.splits prod.splits)

text \<open>
  C3. \<open>processRound\<close> is meant to leave the previous state as it was. Without a pool
  top-up it does not: the copy of line 64 is shallow, so line 133 writes the new pool
  percentage into the pool object of the previous state. For founders at 70% and 20%
  with a 10% pool, and 1,000,000 raised at 4,000,000 pre-money, the pool percentage of
  the previous state is 10 before the call and 8 after it; the first state of the
  sequence that \<open>calculateCapTable\<close> returns is that previous state.
\<close>

theorem previous_pool_percentage_overwritten:
  "case createInitialState empty_store (scenario_founders pool_scenario)
          (scenario_esopPools pool_scenario) of
     Inl e \<Rightarrow> False
   | Inr (s0, h0) \<Rightarrow>
       (case processRound h0 s0 (hd (scenario_rounds pool_scenario)) of
          Inl e \<Rightarrow> False
        | Inr (res, h1) \<Rightarrow>
            preRoundState res = s0 \<and>
            esop_percentage (cells h0 (esop (preRoundState res))) = Num 10 \<and>
            esop_percentage (cells h1 (esop (preRoundState res))) = Num 8 \<and>
            calculateCapTable empty_store pool_scenario = Inr ([s0, postRoundState res], h1))"
  by (simp add: engine_defs fixture_defs pool_scenario_def fl_eval)

section \<open>The pool top-up\<close>

text \<open>
  C4. Founders at 90% and 10%, 2,000,000 raised at 8,000,000 pre-money with a pre-money
  top-up of the pool to 15%: the pool is meant to end at about 15%. It ends at 12%:
  \<open>adjustESOPPool\<close> adds 1,500,000 pool shares and leaves \<open>totalShares\<close> at
  10,000,000, so line 133 divides 1,500,000 by 12,500,000. The founders' percentages do
  fall, from 90 and 10 to 62.608695999999995 and
  6.956519999999999.
\<close>

theorem topup_pool_percentage_is_12:
  "case calculateCapTable empty_store topup_scenario of
     Inl e \<Rightarrow> False
   | Inr (states, h) \<Rightarrow>
       length states = 2 \<and>
       map fh_percentage (founders (states ! 0)) = [Num 90, Num 10] \<and>
       esop_percentage (cells h (esop (states ! 1))) = Num 12 \<and>
       \<not> Math_abs (esop_percentage (cells h (esop (states ! 1))) - Num 15) \<le> fl64 (1 / 10) \<and>
       map fh_percentage (founders (states ! 1)) =
         [fl64 (62608695999999995 / 1000000000000000), fl64 (6956519999999999 / 1000000000000000)] \<and>
       list_all2 (<) (map fh_percentage (founders (states ! 1)))
         (map fh_percentage (founders (states ! 0))) \<and>
       totalShares (states ! 1) = Num 12500000 \<and>
       map fh_shares (founders (states ! 1)) = [Num 7826087, Num 869565] \<and>
       esop_shares (cells h (esop (states ! 1))) = Num 1500000"
  by (simp add: engine_defs fixture_defs topup_scenario_def fl_eval)

section \<open>The validator\<close>




end
